theory Spec2Isabelle
  imports Main "HOL-Library.Sublist"
begin

section \<open>Values handed to the infrastructure framework\<close>

text \<open>
  The repository (an AWS CDK application in TypeScript) consists of three stack classes,
  \<open>NetworkStack\<close>, \<open>FargateServiceStack\<close> and \<open>PipelineStack\<close>, and the entry script
  \<open>bin/lab-infra.ts\<close> that instantiates them. Everything the code does is to evaluate
  argument values and hand them to constructors and methods of the framework.

  A value is what a TypeScript expression of the source evaluates to: a string, a number,
  a boolean, \<open>undefined\<close>, a member of a framework enumeration (by its qualified name), an
  object bound earlier (by the name the source binds it to), a property of such an object,
  an array or object literal, or the result of a call into the framework
  (\<open>new C(args)\<close>, a static call \<open>C.m(args)\<close>, a method call \<open>o.m(args)\<close>).
  Object literals keep the order of their properties.
\<close>

datatype val =
    Str string
  | Num int
  | Bool bool
  | Undefined
  | Enum string
  | Ref string
  | Get val string
  | Arr "val list"
  | Obj "(string \<times> val) list"
  | New string "val list"
  | Static string "val list"
  | Method val string "val list"

text \<open>
  A statement of a constructor body or of the entry script: the call of the parent
  constructor (\<open>super(...)\<close>), a binding (\<open>const x = e\<close>, \<open>this.x = e\<close>) or an expression
  statement.
\<close>

datatype stmt =
    Super string "val list"
  | Bind string val
  | Do val

text \<open>
  A statement of the entry script is either a plain statement or \<open>const x = new C(args)\<close>
  for a class \<open>C\<close> of this repository, which runs the statements of the constructor of \<open>C\<close>.
\<close>

datatype top =
    Top stmt
  | Construct string string "val list" "stmt list"

text \<open>Property access \<open>o.k\<close> on an object literal; a missing property reads as \<open>undefined\<close>.\<close>

definition field :: "(string \<times> val) list \<Rightarrow> string \<Rightarrow> val" where
  "field kvs k = (case map_of kvs k of Some v \<Rightarrow> v | None \<Rightarrow> Undefined)"

text \<open>
  Strings are byte strings. A literal of the source with characters outside ASCII is given
  by its UTF-8 bytes.
\<close>

definition utf8 :: "nat list \<Rightarrow> string" where
  "utf8 bs = map char_of bs"

text \<open>
  The decimal numeral of a natural number, as a template literal \<open>${n}\<close> prints an array
  index.
\<close>

definition digit :: "nat \<Rightarrow> char" where
  "digit d = ''0123456789'' ! d"

function decimal :: "nat \<Rightarrow> string" where
  "decimal n = (if n < 10 then [digit n] else decimal (n div 10) @ [digit (n mod 10)])"
  by pat_completeness auto
termination
  by (relation "measure (\<lambda>n. n)") auto

declare decimal.simps [simp del]

section \<open>What the code reads back from the framework\<close>

text \<open>
  The constructs of the framework are opaque to this code, except for the attributes it
  reads from them. These are parameters of the model: the subnets of the VPC (the two
  \<open>forEach\<close> loops run over them) and the attribute strings that are passed on as output
  values or spliced into names and ARNs.
\<close>

record subnet =
  subnetId :: string
  availabilityZone :: string

record framework =
  vpcId :: string
  vpcCidrBlock :: string
  publicSubnets :: "subnet list"
  isolatedSubnets :: "subnet list"
  clusterName :: string
  clusterArn :: string
  serviceName :: string
  serviceArn :: string
  taskDefinitionArn :: string
  logGroupName :: string
  Aws_ACCOUNT_ID :: string
  Aws_REGION :: string
  sourceBucket_bucketName :: string
  sourceBucket_bucketArn :: string
  artifactBucket_bucketArn :: string
  buildProject_projectName :: string
  buildProject_projectArn :: string
  pipelineName :: string
  pipelineArn :: string

section \<open>lib/network-stack.ts\<close>

text \<open>Description literals (Japanese in the source), with their meaning.\<close>

definition VpcId_description :: string where
  \<comment> \<open>"ID of the created VPC"\<close>
  "VpcId_description =
     utf8 [228, 189, 156, 230, 136, 144, 227, 129, 149, 227, 130, 140, 227, 129, 159]
     @ ''VPC'' @ utf8 [227, 129, 174] @ ''ID''"

definition VpcCidr_description :: string where
  \<comment> \<open>"CIDR block of the VPC"\<close>
  "VpcCidr_description =
     ''VPC'' @ utf8 [227, 129, 174] @ ''CIDR''
     @ utf8 [227, 131, 150, 227, 131, 173, 227, 131, 131, 227, 130, 175]"

definition PublicSubnet_description :: "nat \<Rightarrow> subnet \<Rightarrow> string" where
  \<comment> \<open>"ID of public subnet <index + 1> (AZ: <availability zone>)"\<close>
  "PublicSubnet_description index subnet =
     utf8 [227, 131, 145, 227, 131, 150, 227, 131, 170, 227, 131, 131, 227, 130, 175,
           227, 130, 181, 227, 131, 150, 227, 131, 141, 227, 131, 131, 227, 131, 136]
     @ decimal (index + 1) @ utf8 [227, 129, 174] @ ''ID (AZ: ''
     @ availabilityZone subnet @ '')''"

definition PrivateSubnet_description :: "nat \<Rightarrow> subnet \<Rightarrow> string" where
  \<comment> \<open>"ID of private subnet <index + 1> (AZ: <availability zone>)"\<close>
  "PrivateSubnet_description index subnet =
     utf8 [227, 131, 151, 227, 131, 169, 227, 130, 164, 227, 131, 153, 227, 131, 188,
           227, 131, 136, 227, 130, 181, 227, 131, 150, 227, 131, 141, 227, 131, 131,
           227, 131, 136]
     @ decimal (index + 1) @ utf8 [227, 129, 174] @ ''ID (AZ: ''
     @ availabilityZone subnet @ '')''"

text \<open>The body of \<open>forEach((subnet, index) => ...)\<close> over the public subnets.\<close>

definition PublicSubnet_output :: "nat \<times> subnet \<Rightarrow> stmt" where
  "PublicSubnet_output = (\<lambda>(index, subnet).
     Do (New ''cdk.CfnOutput''
       [Ref ''this'', Str (''PublicSubnet'' @ decimal (index + 1) @ ''Id''),
        Obj [(''value'', Str (subnetId subnet)),
             (''description'', Str (PublicSubnet_description index subnet)),
             (''exportName'', Str (''LabInfra-PublicSubnet'' @ decimal (index + 1) @ ''Id''))]]))"

text \<open>The body of \<open>forEach((subnet, index) => ...)\<close> over the isolated subnets.\<close>

definition PrivateSubnet_output :: "nat \<times> subnet \<Rightarrow> stmt" where
  "PrivateSubnet_output = (\<lambda>(index, subnet).
     Do (New ''cdk.CfnOutput''
       [Ref ''this'', Str (''PrivateSubnet'' @ decimal (index + 1) @ ''Id''),
        Obj [(''value'', Str (subnetId subnet)),
             (''description'', Str (PrivateSubnet_description index subnet)),
             (''exportName'', Str (''LabInfra-PrivateSubnet'' @ decimal (index + 1) @ ''Id''))]]))"

text \<open>
  The constructor of \<open>NetworkStack\<close>. \<open>forEach\<close> calls its callback once per element, in
  order, with the element and its index from 0.
\<close>

definition NetworkStack :: "framework \<Rightarrow> val \<Rightarrow> string \<Rightarrow> val \<Rightarrow> stmt list" where
  "NetworkStack fw scope ident props =
     [Super ''cdk.Stack'' [scope, Str ident, props],
      Bind ''this.vpc'' (New ''ec2.Vpc''
        [Ref ''this'', Str ''LabInfraVpc'',
         Obj [(''cidr'', Str ''10.0.0.0/16''),
              (''maxAzs'', Num 2),
              (''subnetConfiguration'', Arr
                 [Obj [(''cidrMask'', Num 24),
                       (''name'', Str ''PublicSubnet''),
                       (''subnetType'', Enum ''ec2.SubnetType.PUBLIC'')],
                  Obj [(''cidrMask'', Num 24),
                       (''name'', Str ''PrivateSubnet''),
                       (''subnetType'', Enum ''ec2.SubnetType.PRIVATE_ISOLATED'')]]),
              (''natGateways'', Num 0)]]),
      Do (New ''cdk.CfnOutput''
        [Ref ''this'', Str ''VpcId'',
         Obj [(''value'', Str (vpcId fw)),
              (''description'', Str VpcId_description),
              (''exportName'', Str ''LabInfra-VpcId'')]]),
      Do (New ''cdk.CfnOutput''
        [Ref ''this'', Str ''VpcCidr'',
         Obj [(''value'', Str (vpcCidrBlock fw)),
              (''description'', Str VpcCidr_description),
              (''exportName'', Str ''LabInfra-VpcCidr'')]])]
     @ map PublicSubnet_output (enumerate 0 (publicSubnets fw))
     @ map PrivateSubnet_output (enumerate 0 (isolatedSubnets fw))"

section \<open>lib/fargate-service-stack.ts\<close>

definition TaskExecutionRole_description :: string where
  \<comment> \<open>"IAM role for executing ECS Fargate tasks"\<close>
  "TaskExecutionRole_description =
     ''ECS Fargate ''
     @ utf8 [227, 130, 191, 227, 130, 185, 227, 130, 175, 229, 174, 159, 232, 161, 140,
             231, 148, 168, 227, 129, 174]
     @ ''IAM'' @ utf8 [227, 131, 173, 227, 131, 188, 227, 131, 171]"

definition TaskRole_description :: string where
  \<comment> \<open>"IAM role for the application inside the ECS Fargate task"\<close>
  "TaskRole_description =
     ''ECS Fargate ''
     @ utf8 [227, 130, 191, 227, 130, 185, 227, 130, 175, 229, 134, 133, 227, 129, 174,
             227, 130, 162, 227, 131, 151, 227, 131, 170, 227, 130, 177, 227, 131, 188,
             227, 130, 183, 227, 131, 167, 227, 131, 179, 231, 148, 168, 227, 129, 174]
     @ ''IAM'' @ utf8 [227, 131, 173, 227, 131, 188, 227, 131, 171]"

definition SecurityGroup_description :: string where
  \<comment> \<open>"Security group for the Lab Infra Fargate service"\<close>
  "SecurityGroup_description =
     ''Lab Infra Fargate ''
     @ utf8 [227, 130, 181, 227, 131, 188, 227, 131, 147, 227, 130, 185, 231, 148, 168,
             227, 129, 174, 227, 130, 187, 227, 130, 173, 227, 131, 165, 227, 131, 170,
             227, 131, 134, 227, 130, 163, 227, 130, 176, 227, 131, 171, 227, 131, 188,
             227, 131, 151]"

definition ClusterName_description :: string where
  \<comment> \<open>"ECS cluster name"\<close>
  "ClusterName_description =
     ''ECS'' @ utf8 [227, 130, 175, 227, 131, 169, 227, 130, 185, 227, 130, 191, 227, 131,
                     188, 229, 144, 141]"

definition ClusterArn_description :: string where
  \<comment> \<open>"ARN of the ECS cluster"\<close>
  "ClusterArn_description =
     ''ECS'' @ utf8 [227, 130, 175, 227, 131, 169, 227, 130, 185, 227, 130, 191, 227, 131,
                     188, 227, 129, 174] @ ''ARN''"

definition ServiceName_description :: string where
  \<comment> \<open>"Fargate service name"\<close>
  "ServiceName_description =
     ''Fargate'' @ utf8 [227, 130, 181, 227, 131, 188, 227, 131, 147, 227, 130, 185,
                         229, 144, 141]"

definition ServiceArn_description :: string where
  \<comment> \<open>"ARN of the Fargate service"\<close>
  "ServiceArn_description =
     ''Fargate'' @ utf8 [227, 130, 181, 227, 131, 188, 227, 131, 147, 227, 130, 185,
                         227, 129, 174] @ ''ARN''"

definition TaskDefinitionArn_description :: string where
  \<comment> \<open>"ARN of the task definition"\<close>
  "TaskDefinitionArn_description =
     utf8 [227, 130, 191, 227, 130, 185, 227, 130, 175, 229, 174, 154, 231, 190, 169,
           227, 129, 174] @ ''ARN''"

definition LogGroupName_description :: string where
  \<comment> \<open>"CloudWatch Logs group name"\<close>
  "LogGroupName_description =
     ''CloudWatch Logs'' @ utf8 [227, 130, 176, 227, 131, 171, 227, 131, 188, 227, 131,
                                 151, 229, 144, 141]"

text \<open>
  The constructor of \<open>FargateServiceStack\<close>. Its \<open>props\<close> parameter is required and is an
  object (\<open>FargateServiceStackProps\<close>); \<open>props.vpc\<close> reads its \<open>vpc\<close> property.
\<close>

definition FargateServiceStack ::
  "framework \<Rightarrow> val \<Rightarrow> string \<Rightarrow> (string \<times> val) list \<Rightarrow> stmt list" where
  "FargateServiceStack fw scope ident props =
     [Super ''cdk.Stack'' [scope, Str ident, Obj props],
      Bind ''logGroup'' (New ''logs.LogGroup''
        [Ref ''this'', Str ''LabInfraLogGroup'',
         Obj [(''logGroupName'', Str ''/aws/ecs/lab-infra''),
              (''retention'', Enum ''logs.RetentionDays.ONE_WEEK''),
              (''removalPolicy'', Enum ''cdk.RemovalPolicy.DESTROY'')]]),
      Bind ''this.cluster'' (New ''ecs.Cluster''
        [Ref ''this'', Str ''LabInfraCluster'',
         Obj [(''clusterName'', Str ''lab-infra-cluster''),
              (''vpc'', field props ''vpc''),
              (''containerInsights'', Bool False)]]),
      Bind ''taskExecutionRole'' (New ''iam.Role''
        [Ref ''this'', Str ''LabInfraTaskExecutionRole'',
         Obj [(''roleName'', Str ''LabInfraTaskExecutionRole''),
              (''assumedBy'', New ''iam.ServicePrincipal'' [Str ''ecs-tasks.amazonaws.com'']),
              (''description'', Str TaskExecutionRole_description)]]),
      Do (Method (Ref ''taskExecutionRole'') ''addManagedPolicy''
        [Static ''iam.ManagedPolicy.fromAwsManagedPolicyName''
           [Str ''service-role/AmazonECSTaskExecutionRolePolicy'']]),
      Bind ''taskRole'' (New ''iam.Role''
        [Ref ''this'', Str ''LabInfraTaskRole'',
         Obj [(''roleName'', Str ''LabInfraTaskRole''),
              (''assumedBy'', New ''iam.ServicePrincipal'' [Str ''ecs-tasks.amazonaws.com'']),
              (''description'', Str TaskRole_description)]]),
      Bind ''taskDefinition'' (New ''ecs.FargateTaskDefinition''
        [Ref ''this'', Str ''LabInfraTaskDefinition'',
         Obj [(''family'', Str ''lab-infra-task''),
              (''cpu'', Num 256),
              (''memoryLimitMiB'', Num 512),
              (''executionRole'', Ref ''taskExecutionRole''),
              (''taskRole'', Ref ''taskRole'')]]),
      Bind ''container'' (Method (Ref ''taskDefinition'') ''addContainer''
        [Str ''LabInfraContainer'',
         Obj [(''containerName'', Str ''lab-infra-container''),
              (''image'', Static ''ecs.ContainerImage.fromRegistry''
                 [Str ''amazon/amazon-ecs-sample'']),
              (''memoryLimitMiB'', Num 512),
              (''essential'', Bool True),
              (''logging'', Static ''ecs.LogDrivers.awsLogs''
                 [Obj [(''streamPrefix'', Str ''lab-infra''),
                       (''logGroup'', Ref ''logGroup'')]]),
              (''environment'', Obj [(''APP_NAME'', Str ''LabInfra''),
                                     (''ENVIRONMENT'', Str ''development'')])]]),
      Do (Method (Ref ''container'') ''addPortMappings''
        [Obj [(''containerPort'', Num 80),
              (''protocol'', Enum ''ecs.Protocol.TCP''),
              (''name'', Str ''http'')]]),
      Bind ''securityGroup'' (New ''ec2.SecurityGroup''
        [Ref ''this'', Str ''LabInfraSecurityGroup'',
         Obj [(''securityGroupName'', Str ''lab-infra-fargate-sg''),
              (''vpc'', field props ''vpc''),
              (''description'', Str SecurityGroup_description),
              (''allowAllOutbound'', Bool True)]]),
      Do (Method (Ref ''securityGroup'') ''addIngressRule''
        [Static ''ec2.Peer.anyIpv4'' [],
         Static ''ec2.Port.tcp'' [Num 80],
         Str ''HTTP traffic from anywhere'']),
      Bind ''this.service'' (New ''ecs.FargateService''
        [Ref ''this'', Str ''LabInfraService'',
         Obj [(''serviceName'', Str ''lab-infra-service''),
              (''cluster'', Ref ''this.cluster''),
              (''taskDefinition'', Ref ''taskDefinition''),
              (''desiredCount'', Num 1),
              (''vpcSubnets'', Obj [(''subnetType'', Enum ''ec2.SubnetType.PUBLIC'')]),
              (''securityGroups'', Arr [Ref ''securityGroup'']),
              (''assignPublicIp'', Bool True),
              (''platformVersion'', Enum ''ecs.FargatePlatformVersion.LATEST''),
              (''maxHealthyPercent'', Num 200),
              (''minHealthyPercent'', Num 50),
              (''healthCheckGracePeriod'', Static ''cdk.Duration.seconds'' [Num 60])]]),
      Do (New ''cdk.CfnOutput''
        [Ref ''this'', Str ''ClusterName'',
         Obj [(''value'', Str (clusterName fw)),
              (''description'', Str ClusterName_description),
              (''exportName'', Str ''LabInfra-ClusterName'')]]),
      Do (New ''cdk.CfnOutput''
        [Ref ''this'', Str ''ClusterArn'',
         Obj [(''value'', Str (clusterArn fw)),
              (''description'', Str ClusterArn_description),
              (''exportName'', Str ''LabInfra-ClusterArn'')]]),
      Do (New ''cdk.CfnOutput''
        [Ref ''this'', Str ''ServiceName'',
         Obj [(''value'', Str (serviceName fw)),
              (''description'', Str ServiceName_description),
              (''exportName'', Str ''LabInfra-ServiceName'')]]),
      Do (New ''cdk.CfnOutput''
        [Ref ''this'', Str ''ServiceArn'',
         Obj [(''value'', Str (serviceArn fw)),
              (''description'', Str ServiceArn_description),
              (''exportName'', Str ''LabInfra-ServiceArn'')]]),
      Do (New ''cdk.CfnOutput''
        [Ref ''this'', Str ''TaskDefinitionArn'',
         Obj [(''value'', Str (taskDefinitionArn fw)),
              (''description'', Str TaskDefinitionArn_description),
              (''exportName'', Str ''LabInfra-TaskDefinitionArn'')]]),
      Do (New ''cdk.CfnOutput''
        [Ref ''this'', Str ''LogGroupName'',
         Obj [(''value'', Str (logGroupName fw)),
              (''description'', Str LogGroupName_description),
              (''exportName'', Str ''LabInfra-LogGroupName'')]])]"

section \<open>lib/pipeline-stack.ts\<close>

definition CodeBuildRole_description :: string where
  \<comment> \<open>"CodeBuild service role for the CDK build"\<close>
  "CodeBuildRole_description =
     ''CDK '' @ utf8 [227, 131, 147, 227, 131, 171, 227, 131, 137, 231, 148, 168, 227, 129, 174]
     @ ''CodeBuild''
     @ utf8 [227, 130, 181, 227, 131, 188, 227, 131, 147, 227, 130, 185, 227, 131, 173,
             227, 131, 188, 227, 131, 171]"

definition BuildProject_description :: string where
  \<comment> \<open>"Build of the Lab Infra CDK project"\<close>
  "BuildProject_description =
     ''Lab Infra CDK ''
     @ utf8 [227, 131, 151, 227, 131, 173, 227, 130, 184, 227, 130, 167, 227, 130, 175,
             227, 131, 136, 227, 129, 174, 227, 131, 147, 227, 131, 171, 227, 131, 137]"

definition PipelineRole_description :: string where
  \<comment> \<open>"Service role for the CI/CD pipeline"\<close>
  "PipelineRole_description =
     ''CI/CD''
     @ utf8 [227, 131, 145, 227, 130, 164, 227, 131, 151, 227, 131, 169, 227, 130, 164,
             227, 131, 179, 231, 148, 168, 227, 129, 174, 227, 130, 181, 227, 131, 188,
             227, 131, 147, 227, 130, 185, 227, 131, 173, 227, 131, 188, 227, 131, 171]"

definition PipelineName_description :: string where
  \<comment> \<open>"CodePipeline name"\<close>
  "PipelineName_description = ''CodePipeline'' @ utf8 [229, 144, 141]"

definition PipelineArn_description :: string where
  \<comment> \<open>"ARN of the CodePipeline"\<close>
  "PipelineArn_description = ''CodePipeline'' @ utf8 [227, 129, 174] @ ''ARN''"

definition SourceBucketName_description :: string where
  \<comment> \<open>"Name of the S3 bucket for the source code"\<close>
  "SourceBucketName_description =
     utf8 [227, 130, 189, 227, 131, 188, 227, 130, 185, 227, 130, 179, 227, 131, 188,
           227, 131, 137, 231, 148, 168]
     @ ''S3''
     @ utf8 [227, 131, 144, 227, 130, 177, 227, 131, 131, 227, 131, 136, 229, 144, 141]"

definition BuildProjectName_description :: string where
  \<comment> \<open>"CodeBuild project name"\<close>
  "BuildProjectName_description =
     ''CodeBuild''
     @ utf8 [227, 131, 151, 227, 131, 173, 227, 130, 184, 227, 130, 167, 227, 130, 175,
             227, 131, 136, 229, 144, 141]"

text \<open>The object given to \<open>codebuild.BuildSpec.fromObject\<close>.\<close>

definition buildSpec :: val where
  \<open>buildSpec = Obj
     [(''version'', Str ''0.2''),
      (''phases'', Obj
         [(''install'', Obj
             [(''runtime-versions'', Obj [(''nodejs'', Str ''18'')]),
              (''commands'', Arr
                 [Str ''echo "=== Installing dependencies ==="'',
                  Str ''npm install -g aws-cdk@2.87.0'',
                  Str ''npm ci''])]),
          (''pre_build'', Obj
             [(''commands'', Arr
                 [Str ''echo "=== Pre-build phase ==="'',
                  Str ''node --version'',
                  Str ''npm --version'',
                  Str ''cdk --version'',
                  Str ''echo "Current directory: $(pwd)"'',
                  Str ''ls -la''])]),
          (''build'', Obj
             [(''commands'', Arr
                 [Str ''echo "=== Build phase ==="'',
                  Str ''echo "Running CDK synth..."'',
                  Str ''cdk synth --all'',
                  Str ''echo "CDK synth completed successfully"'',
                  Str ''ls -la cdk.out/''])]),
          (''post_build'', Obj
             [(''commands'', Arr
                 [Str ''echo "=== Post-build phase ==="'',
                  Str ''echo "Build completed at $(date)"''])])]),
      (''artifacts'', Obj
         [(''files'', Arr [Str ''**/*'']),
          (''base-directory'', Str ''cdk.out'')]),
      (''cache'', Obj [(''paths'', Arr [Str ''node_modules/**/*''])])]\<close>

text \<open>The two actions of the pipeline's \<open>Deploy\<close> stage.\<close>

definition DeployNetworkStack :: val where
  "DeployNetworkStack =
     New ''codepipeline_actions.CloudFormationCreateUpdateStackAction''
       [Obj [(''actionName'', Str ''DeployNetworkStack''),
             (''stackName'', Str ''LabInfraNetworkStack''),
             (''templatePath'', Method (Ref ''buildOutput'') ''atPath''
                [Str ''LabInfraNetworkStack.template.json'']),
             (''adminPermissions'', Bool True),
             (''runOrder'', Num 1)]]"

definition DeployFargateServiceStack :: val where
  "DeployFargateServiceStack =
     New ''codepipeline_actions.CloudFormationCreateUpdateStackAction''
       [Obj [(''actionName'', Str ''DeployFargateServiceStack''),
             (''stackName'', Str ''LabInfraFargateServiceStack''),
             (''templatePath'', Method (Ref ''buildOutput'') ''atPath''
                [Str ''LabInfraFargateServiceStack.template.json'']),
             (''adminPermissions'', Bool True),
             (''runOrder'', Num 2)]]"

text \<open>
  The constructor of \<open>PipelineStack\<close>. \<open>cdk.Aws.ACCOUNT_ID\<close> and \<open>cdk.Aws.REGION\<close> are
  strings of the framework, spliced into the bucket names and the log group ARN.
\<close>

definition PipelineStack :: "framework \<Rightarrow> val \<Rightarrow> string \<Rightarrow> val \<Rightarrow> stmt list" where
  "PipelineStack fw scope ident props =
     [Super ''cdk.Stack'' [scope, Str ident, props],
      Bind ''this.sourceBucket'' (New ''s3.Bucket''
        [Ref ''this'', Str ''LabInfraSourceBucket'',
         Obj [(''bucketName'', Str (''lab-infra-source-'' @ Aws_ACCOUNT_ID fw @ ''-''
                                     @ Aws_REGION fw)),
              (''versioned'', Bool True),
              (''encryption'', Enum ''s3.BucketEncryption.S3_MANAGED''),
              (''blockPublicAccess'', Enum ''s3.BlockPublicAccess.BLOCK_ALL''),
              (''removalPolicy'', Enum ''cdk.RemovalPolicy.DESTROY''),
              (''autoDeleteObjects'', Bool True)]]),
      Bind ''artifactBucket'' (New ''s3.Bucket''
        [Ref ''this'', Str ''LabInfraArtifactBucket'',
         Obj [(''bucketName'', Str (''lab-infra-artifacts-'' @ Aws_ACCOUNT_ID fw @ ''-''
                                     @ Aws_REGION fw)),
              (''versioned'', Bool True),
              (''encryption'', Enum ''s3.BucketEncryption.S3_MANAGED''),
              (''blockPublicAccess'', Enum ''s3.BlockPublicAccess.BLOCK_ALL''),
              (''removalPolicy'', Enum ''cdk.RemovalPolicy.DESTROY''),
              (''autoDeleteObjects'', Bool True),
              (''lifecycleRules'', Arr
                 [Obj [(''id'', Str ''DeleteOldArtifacts''),
                       (''enabled'', Bool True),
                       (''expiration'', Static ''cdk.Duration.days'' [Num 30])]])]]),
      Bind ''codeBuildRole'' (New ''iam.Role''
        [Ref ''this'', Str ''LabInfraCodeBuildRole'',
         Obj [(''roleName'', Str ''LabInfraCodeBuildRole''),
              (''assumedBy'', New ''iam.ServicePrincipal'' [Str ''codebuild.amazonaws.com'']),
              (''description'', Str CodeBuildRole_description)]]),
      Do (Method (Ref ''codeBuildRole'') ''addToPolicy''
        [New ''iam.PolicyStatement''
           [Obj [(''effect'', Enum ''iam.Effect.ALLOW''),
                 (''actions'', Arr [Str ''logs:CreateLogGroup'',
                                    Str ''logs:CreateLogStream'',
                                    Str ''logs:PutLogEvents'']),
                 (''resources'', Arr
                    [Str (''arn:aws:logs:'' @ Aws_REGION fw @ '':'' @ Aws_ACCOUNT_ID fw
                          @ '':log-group:/aws/codebuild/*'')])]]]),
      Do (Method (Ref ''codeBuildRole'') ''addToPolicy''
        [New ''iam.PolicyStatement''
           [Obj [(''effect'', Enum ''iam.Effect.ALLOW''),
                 (''actions'', Arr [Str ''s3:GetObject'',
                                    Str ''s3:GetObjectVersion'',
                                    Str ''s3:PutObject'']),
                 (''resources'', Arr
                    [Str (sourceBucket_bucketArn fw @ ''/*''),
                     Str (artifactBucket_bucketArn fw @ ''/*'')])]]]),
      Do (Method (Ref ''codeBuildRole'') ''addManagedPolicy''
        [Static ''iam.ManagedPolicy.fromAwsManagedPolicyName'' [Str ''AdministratorAccess'']]),
      Bind ''buildProject'' (New ''codebuild.Project''
        [Ref ''this'', Str ''LabInfraBuildProject'',
         Obj [(''projectName'', Str ''lab-infra-build''),
              (''description'', Str BuildProject_description),
              (''environment'', Obj
                 [(''buildImage'', Enum ''codebuild.LinuxBuildImage.AMAZON_LINUX_2_5''),
                  (''computeType'', Enum ''codebuild.ComputeType.SMALL''),
                  (''privileged'', Bool False)]),
              (''role'', Ref ''codeBuildRole''),
              (''timeout'', Static ''cdk.Duration.minutes'' [Num 15]),
              (''buildSpec'', Static ''codebuild.BuildSpec.fromObject'' [buildSpec])]]),
      Bind ''pipelineRole'' (New ''iam.Role''
        [Ref ''this'', Str ''LabInfraPipelineRole'',
         Obj [(''roleName'', Str ''LabInfraPipelineRole''),
              (''assumedBy'', New ''iam.ServicePrincipal''
                 [Str ''codepipeline.amazonaws.com'']),
              (''description'', Str PipelineRole_description)]]),
      Do (Method (Ref ''pipelineRole'') ''addToPolicy''
        [New ''iam.PolicyStatement''
           [Obj [(''effect'', Enum ''iam.Effect.ALLOW''),
                 (''actions'', Arr [Str ''s3:GetObject'',
                                    Str ''s3:GetObjectVersion'',
                                    Str ''s3:PutObject'',
                                    Str ''s3:GetBucketVersioning'']),
                 (''resources'', Arr
                    [Str (sourceBucket_bucketArn fw),
                     Str (sourceBucket_bucketArn fw @ ''/*''),
                     Str (artifactBucket_bucketArn fw),
                     Str (artifactBucket_bucketArn fw @ ''/*'')])]]]),
      Do (Method (Ref ''pipelineRole'') ''addToPolicy''
        [New ''iam.PolicyStatement''
           [Obj [(''effect'', Enum ''iam.Effect.ALLOW''),
                 (''actions'', Arr [Str ''codebuild:BatchGetBuilds'',
                                    Str ''codebuild:StartBuild'']),
                 (''resources'', Arr [Str (buildProject_projectArn fw)])]]]),
      Do (Method (Ref ''pipelineRole'') ''addToPolicy''
        [New ''iam.PolicyStatement''
           [Obj [(''effect'', Enum ''iam.Effect.ALLOW''),
                 (''actions'', Arr [Str ''cloudformation:CreateStack'',
                                    Str ''cloudformation:UpdateStack'',
                                    Str ''cloudformation:DeleteStack'',
                                    Str ''cloudformation:DescribeStacks'',
                                    Str ''cloudformation:DescribeStackEvents'',
                                    Str ''cloudformation:DescribeChangeSet'',
                                    Str ''cloudformation:CreateChangeSet'',
                                    Str ''cloudformation:DeleteChangeSet'',
                                    Str ''cloudformation:ExecuteChangeSet'',
                                    Str ''cloudformation:GetTemplate'',
                                    Str ''cloudformation:ValidateTemplate'',
                                    Str ''iam:PassRole'']),
                 (''resources'', Arr [Str ''*''])]]]),
      Bind ''this.pipeline'' (New ''codepipeline.Pipeline''
        [Ref ''this'', Str ''LabInfraPipeline'',
         Obj [(''pipelineName'', Str ''lab-infra-pipeline''),
              (''role'', Ref ''pipelineRole''),
              (''artifactBucket'', Ref ''artifactBucket''),
              (''restartExecutionOnUpdate'', Bool True)]]),
      Bind ''sourceOutput'' (New ''codepipeline.Artifact'' [Str ''SourceOutput'']),
      Bind ''buildOutput'' (New ''codepipeline.Artifact'' [Str ''BuildOutput'']),
      Do (Method (Ref ''this.pipeline'') ''addStage''
        [Obj [(''stageName'', Str ''Source''),
              (''actions'', Arr
                 [New ''codepipeline_actions.S3SourceAction''
                    [Obj [(''actionName'', Str ''S3Source''),
                          (''bucket'', Ref ''this.sourceBucket''),
                          (''bucketKey'', Str ''source.zip''),
                          (''output'', Ref ''sourceOutput''),
                          (''trigger'', Enum ''codepipeline_actions.S3Trigger.POLL'')]]])]]),
      Do (Method (Ref ''this.pipeline'') ''addStage''
        [Obj [(''stageName'', Str ''Build''),
              (''actions'', Arr
                 [New ''codepipeline_actions.CodeBuildAction''
                    [Obj [(''actionName'', Str ''CDKSynth''),
                          (''project'', Ref ''buildProject''),
                          (''input'', Ref ''sourceOutput''),
                          (''outputs'', Arr [Ref ''buildOutput''])]]])]]),
      Do (Method (Ref ''this.pipeline'') ''addStage''
        [Obj [(''stageName'', Str ''Deploy''),
              (''actions'', Arr [DeployNetworkStack, DeployFargateServiceStack])]]),
      Do (New ''cdk.CfnOutput''
        [Ref ''this'', Str ''PipelineName'',
         Obj [(''value'', Str (pipelineName fw)),
              (''description'', Str PipelineName_description),
              (''exportName'', Str ''LabInfra-PipelineName'')]]),
      Do (New ''cdk.CfnOutput''
        [Ref ''this'', Str ''PipelineArn'',
         Obj [(''value'', Str (pipelineArn fw)),
              (''description'', Str PipelineArn_description),
              (''exportName'', Str ''LabInfra-PipelineArn'')]]),
      Do (New ''cdk.CfnOutput''
        [Ref ''this'', Str ''SourceBucketName'',
         Obj [(''value'', Str (sourceBucket_bucketName fw)),
              (''description'', Str SourceBucketName_description),
              (''exportName'', Str ''LabInfra-SourceBucketName'')]]),
      Do (New ''cdk.CfnOutput''
        [Ref ''this'', Str ''BuildProjectName'',
         Obj [(''value'', Str (buildProject_projectName fw)),
              (''description'', Str BuildProjectName_description),
              (''exportName'', Str ''LabInfra-BuildProjectName'')]])]"

section \<open>bin/lab-infra.ts\<close>

definition NetworkStack_description :: string where
  \<comment> \<open>"Learning lab - network base stack (VPC, subnets)"\<close>
  "NetworkStack_description =
     utf8 [229, 173, 166, 231, 191, 146, 231, 148, 168, 227, 131, 169, 227, 131, 156]
     @ '' - ''
     @ utf8 [227, 131, 141, 227, 131, 131, 227, 131, 136, 227, 131, 175, 227, 131, 188,
             227, 130, 175, 229, 159, 186, 231, 155, 164, 227, 130, 185, 227, 130, 191,
             227, 131, 131, 227, 130, 175, 239, 188, 136]
     @ ''VPC''
     @ utf8 [227, 128, 129, 227, 130, 181, 227, 131, 150, 227, 131, 141, 227, 131, 131,
             227, 131, 136, 239, 188, 137]"

definition FargateServiceStack_description :: string where
  \<comment> \<open>"Learning lab - ECS Fargate service stack"\<close>
  "FargateServiceStack_description =
     utf8 [229, 173, 166, 231, 191, 146, 231, 148, 168, 227, 131, 169, 227, 131, 156]
     @ '' - ECS Fargate''
     @ utf8 [227, 130, 181, 227, 131, 188, 227, 131, 147, 227, 130, 185, 227, 130, 185,
             227, 130, 191, 227, 131, 131, 227, 130, 175]"

definition PipelineStack_description :: string where
  \<comment> \<open>"Learning lab - CI/CD pipeline stack"\<close>
  "PipelineStack_description =
     utf8 [229, 173, 166, 231, 191, 146, 231, 148, 168, 227, 131, 169, 227, 131, 156]
     @ '' - CI/CD''
     @ utf8 [227, 131, 145, 227, 130, 164, 227, 131, 151, 227, 131, 169, 227, 130, 164,
             227, 131, 179, 227, 130, 185, 227, 130, 191, 227, 131, 131, 227, 130, 175]"

text \<open>
  \<open>process.env\<close>: a variable that is not set reads as \<open>undefined\<close>, a variable that is set
  as its string.
\<close>

type_synonym process_env = "string \<Rightarrow> string option"

definition env_var :: "string option \<Rightarrow> val" where
  "env_var v = (case v of None \<Rightarrow> Undefined | Some s \<Rightarrow> Str s)"

text \<open>
  \<open>a || b\<close> for \<open>a\<close> of type \<open>string | undefined\<close>: the value of \<open>b\<close> when \<open>a\<close> is falsy, which
  \<open>undefined\<close> and the empty string are, and the value of \<open>a\<close> otherwise.
\<close>

definition logical_or :: "string option \<Rightarrow> string \<Rightarrow> string" where
  "logical_or a b = (case a of None \<Rightarrow> b | Some s \<Rightarrow> if s = [] then b else s)"

definition env :: "process_env \<Rightarrow> (string \<times> val) list" where
  "env penv =
     [(''account'', env_var (penv ''CDK_DEFAULT_ACCOUNT'')),
      (''region'', Str (logical_or (penv ''CDK_DEFAULT_REGION'') ''ap-northeast-1''))]"

definition networkStack_props :: "process_env \<Rightarrow> val" where
  "networkStack_props penv =
     Obj [(''env'', Obj (env penv)),
          (''description'', Str NetworkStack_description)]"

definition fargateServiceStack_props :: "process_env \<Rightarrow> (string \<times> val) list" where
  "fargateServiceStack_props penv =
     [(''env'', Obj (env penv)),
      (''description'', Str FargateServiceStack_description),
      (''vpc'', Get (Ref ''networkStack'') ''vpc'')]"

definition pipelineStack_props :: "process_env \<Rightarrow> val" where
  "pipelineStack_props penv =
     Obj [(''env'', Obj (env penv)),
          (''description'', Str PipelineStack_description)]"

text \<open>
  The entry script, run once per synthesis. Its inputs are the process environment and
  the framework. (Its import of \<open>source-map-support/register\<close> only changes how stack
  traces are printed and is left out.)
\<close>

definition lab_infra :: "process_env \<Rightarrow> framework \<Rightarrow> top list" where
  "lab_infra penv fw =
     [Top (Bind ''app'' (New ''cdk.App'' [])),
      Top (Bind ''env'' (Obj (env penv))),
      Construct ''networkStack'' ''NetworkStack''
        [Ref ''app'', Str ''LabInfraNetworkStack'', networkStack_props penv]
        (NetworkStack fw (Ref ''app'') ''LabInfraNetworkStack'' (networkStack_props penv)),
      Construct ''fargateServiceStack'' ''FargateServiceStack''
        [Ref ''app'', Str ''LabInfraFargateServiceStack'', Obj (fargateServiceStack_props penv)]
        (FargateServiceStack fw (Ref ''app'') ''LabInfraFargateServiceStack''
           (fargateServiceStack_props penv)),
      Construct ''pipelineStack'' ''PipelineStack''
        [Ref ''app'', Str ''LabInfraPipelineStack'', pipelineStack_props penv]
        (PipelineStack fw (Ref ''app'') ''LabInfraPipelineStack'' (pipelineStack_props penv)),
      Top (Do (Method (Ref ''fargateServiceStack'') ''addDependency'' [Ref ''networkStack''])),
      Top (Do (Method (Static ''cdk.Tags.of'' [Ref ''app'']) ''add''
                 [Str ''Project'', Str ''LabInfra''])),
      Top (Do (Method (Static ''cdk.Tags.of'' [Ref ''app'']) ''add''
                 [Str ''Purpose'', Str ''Learning''])),
      Top (Do (Method (Static ''cdk.Tags.of'' [Ref ''app'']) ''add''
                 [Str ''Environment'', Str ''Development'']))]"

text \<open>The statements the entry script executes, in order, constructor bodies included.\<close>

fun statements :: "top \<Rightarrow> stmt list" where
  "statements (Top s) = [s]"
| "statements (Construct x c args body) = body"

definition trace :: "process_env \<Rightarrow> framework \<Rightarrow> stmt list" where
  "trace penv fw = concat (map statements (lab_infra penv fw))"

section \<open>Reading the declared configuration\<close>

text \<open>
  The expression a statement evaluates. The arguments of \<open>super(...)\<close> are kept apart: they
  go to the constructor of the parent class.
\<close>

fun expr :: "stmt \<Rightarrow> val option" where
  "expr (Super c args) = None"
| "expr (Bind x v) = Some v"
| "expr (Do v) = Some v"

text \<open>
  A construct created in the scope of the stack under construction,
  \<open>new C(this, id, ...)\<close>: its class, its id and the remaining arguments.
\<close>

definition construct_of :: "stmt \<Rightarrow> (string \<times> string \<times> val list) option" where
  "construct_of s =
     (case expr s of
        Some (New c (Ref sc # Str i # rest)) \<Rightarrow>
          if sc = ''this'' then Some (c, i, rest) else None
      | _ \<Rightarrow> None)"







text \<open>The statements of the entry script after the three stacks.\<close>

definition epilogue :: "stmt list" where
  "epilogue =
     [Do (Method (Ref ''fargateServiceStack'') ''addDependency'' [Ref ''networkStack'']),
      Do (Method (Static ''cdk.Tags.of'' [Ref ''app'']) ''add''
            [Str ''Project'', Str ''LabInfra'']),
      Do (Method (Static ''cdk.Tags.of'' [Ref ''app'']) ''add''
            [Str ''Purpose'', Str ''Learning'']),
      Do (Method (Static ''cdk.Tags.of'' [Ref ''app'']) ''add''
            [Str ''Environment'', Str ''Development''])]"

section \<open>Concrete executions\<close>

text \<open>
  A framework whose VPC has two public and two isolated subnets (one of each per
  availability zone, with \<open>maxAzs: 2\<close>), and one whose VPC has a single public subnet.
\<close>

definition example_framework :: framework where
  "example_framework =
     \<lparr>vpcId = ''vpc-0a1'',
      vpcCidrBlock = ''10.0.0.0/16'',
      publicSubnets =
        [\<lparr>subnetId = ''subnet-p1'', availabilityZone = ''ap-northeast-1a''\<rparr>,
         \<lparr>subnetId = ''subnet-p2'', availabilityZone = ''ap-northeast-1c''\<rparr>],
      isolatedSubnets =
        [\<lparr>subnetId = ''subnet-i1'', availabilityZone = ''ap-northeast-1a''\<rparr>,
         \<lparr>subnetId = ''subnet-i2'', availabilityZone = ''ap-northeast-1c''\<rparr>],
      clusterName = ''lab-infra-cluster'',
      clusterArn = ''arn:aws:ecs:ap-northeast-1:111122223333:cluster/lab-infra-cluster'',
      serviceName = ''lab-infra-service'',
      serviceArn = ''arn:aws:ecs:ap-northeast-1:111122223333:service/lab-infra-service'',
      taskDefinitionArn = ''arn:aws:ecs:ap-northeast-1:111122223333:task-definition/lab-infra-task:1'',
      logGroupName = ''/aws/ecs/lab-infra'',
      Aws_ACCOUNT_ID = ''111122223333'',
      Aws_REGION = ''ap-northeast-1'',
      sourceBucket_bucketName = ''lab-infra-source-111122223333-ap-northeast-1'',
      sourceBucket_bucketArn = ''arn:aws:s3:::lab-infra-source-111122223333-ap-northeast-1'',
      artifactBucket_bucketArn = ''arn:aws:s3:::lab-infra-artifacts-111122223333-ap-northeast-1'',
      buildProject_projectName = ''lab-infra-build'',
      buildProject_projectArn = ''arn:aws:codebuild:ap-northeast-1:111122223333:project/lab-infra-build'',
      pipelineName = ''lab-infra-pipeline'',
      pipelineArn = ''arn:aws:codepipeline:ap-northeast-1:111122223333:lab-infra-pipeline''\<rparr>"


text \<open>
  Process environments: neither variable set; both set; the region set to the empty
  string.
\<close>

definition unset_env :: process_env where
  "unset_env = Map.empty"


definition empty_region_env :: process_env where
  "empty_region_env = [''CDK_DEFAULT_REGION'' \<mapsto> '''']"

section \<open>References, method calls and properties\<close>

text \<open>Property \<open>k\<close> of a value that is an object literal.\<close>

definition property :: "val \<Rightarrow> string \<Rightarrow> val" where
  "property v k = (case v of Obj kvs \<Rightarrow> field kvs k | _ \<Rightarrow> Undefined)"





fun stack_of :: "top \<Rightarrow> (string \<times> val list) list" where
  "stack_of (Top s) = []"
| "stack_of (Construct x c args body) = [(c, args)]"

definition stacks :: "top list \<Rightarrow> (string \<times> val list) list" where
  "stacks tops = concat (map stack_of tops)"

text \<open>A property of the parameter object each stack is constructed with, by class.\<close>

definition stack_property :: "string \<Rightarrow> string \<times> val list \<Rightarrow> string \<times> val" where
  "stack_property k st =
     (fst st, case snd st of [scope, i, props] \<Rightarrow> property props k | _ \<Rightarrow> Undefined)"





text \<open>The calls \<open>o.m(args)\<close> of a method \<open>m\<close> made as statements: receiver and arguments.\<close>

definition method_call :: "string \<Rightarrow> stmt \<Rightarrow> (val \<times> val list) option" where
  "method_call m s =
     (case expr s of
        Some (Method r n args) \<Rightarrow> if n = m then Some (r, args) else None
      | _ \<Rightarrow> None)"

definition method_calls :: "string \<Rightarrow> stmt list \<Rightarrow> (val \<times> val list) list" where
  "method_calls m ss = List.map_filter (method_call m) ss"



text \<open>The parameter object of the construct of class \<open>c\<close> with id \<open>i\<close>.\<close>

definition props_in :: "string \<Rightarrow> string \<Rightarrow> stmt \<Rightarrow> val option" where
  "props_in c i s =
     (case construct_of s of
        Some (c', i', [p]) \<Rightarrow> if c' = c \<and> i' = i then Some p else None
      | _ \<Rightarrow> None)"

definition props_of :: "string \<Rightarrow> string \<Rightarrow> stmt list \<Rightarrow> val list" where
  "props_of c i ss = List.map_filter (props_in c i) ss"




text \<open>The calls of the framework's stack constructor: the arguments of each \<open>super(...)\<close>.\<close>

fun super_call :: "stmt \<Rightarrow> (string \<times> val list) option" where
  "super_call (Super c args) = Some (c, args)"
| "super_call (Bind x v) = None"
| "super_call (Do v) = None"

definition super_calls :: "stmt list \<Rightarrow> (string \<times> val list) list" where
  "super_calls ss = List.map_filter super_call ss"








section \<open>Which calls are made\<close>

text \<open>
  The call a statement makes into the framework, without its arguments: \<open>new C\<close>, a static
  call \<open>C.m\<close>, a method \<open>.m\<close>, or \<open>super\<close> for the parent constructor. A statement that only
  binds an object literal makes none.
\<close>

fun head :: "val \<Rightarrow> string" where
  "head (New c args) = ''new '' @ c"
| "head (Static c args) = c"
| "head (Method r m args) = ''.'' @ m"
| "head v = ''''"

fun callee :: "stmt \<Rightarrow> string" where
  "callee (Super c args) = ''super '' @ c"
| "callee (Bind x v) = head v"
| "callee (Do v) = head v"

section \<open>Errors\<close>

text \<open>
  The source has no \<open>throw\<close>, no \<open>try\<close> and no \<open>catch\<close>, and none of its own expressions can
  fail: the only error a run can end with is the one a call into the framework throws,
  which then ends the run. Whether the framework throws at a statement may depend on the
  statements executed before it.
\<close>

datatype error = FrameworkError stmt

fun run :: "(stmt list \<Rightarrow> stmt \<Rightarrow> bool) \<Rightarrow> stmt list \<Rightarrow> stmt list \<Rightarrow> error + stmt list" where
  "run throws done [] = Inr done"
| "run throws done (s # ss) =
     (if throws done s then Inl (FrameworkError s) else run throws (done @ [s]) ss)"

section \<open>The provider's constraints on the declared values\<close>

text \<open>
  Modelled from the spec: the provider's check of a CIDR block, which is not part of this
  repository. A CIDR block is four decimal octets, each at most 255, separated by dots,
  then a slash and a decimal prefix length of at most 32.
\<close>

definition digit_value :: "char \<Rightarrow> nat" where
  "digit_value c = length (takeWhile (\<lambda>d. d \<noteq> c) ''0123456789'')"

definition parse_decimal :: "string \<Rightarrow> nat option" where
  "parse_decimal s =
     (if s \<noteq> [] \<and> list_all (\<lambda>c. c \<in> set ''0123456789'') s
      then Some (foldl (\<lambda>n c. 10 * n + digit_value c) 0 s)
      else None)"

fun split :: "char \<Rightarrow> string \<Rightarrow> string list" where
  "split sep [] = [[]]"
| "split sep (c # cs) =
     (if c = sep then [] # split sep cs
      else (case split sep cs of [] \<Rightarrow> [[c]] | w # ws \<Rightarrow> (c # w) # ws))"

definition parse_cidr :: "string \<Rightarrow> (nat list \<times> nat) option" where
  "parse_cidr s =
     (case split CHR ''/'' s of
        [addr, len] \<Rightarrow>
          (case (those (map parse_decimal (split CHR ''.'' addr)), parse_decimal len) of
             (Some octets, Some l) \<Rightarrow>
               if length octets = 4 \<and> list_all (\<lambda>octet. octet \<le> 255) octets \<and> l \<le> 32
               then Some (octets, l) else None
           | _ \<Rightarrow> None)
      | _ \<Rightarrow> None)"

definition vpc_cidr :: "val \<Rightarrow> (nat list \<times> nat) option" where
  "vpc_cidr p = (case property p ''cidr'' of Str s \<Rightarrow> parse_cidr s | _ \<Rightarrow> None)"

text \<open>
  Modelled from the spec: a subnet mask is valid in a VPC when it is a prefix length of at
  most 32 that is not shorter than the prefix length of the VPC.
\<close>

definition valid_cidr_mask :: "nat \<Rightarrow> val \<Rightarrow> bool" where
  "valid_cidr_mask vpc_prefix m =
     (case m of Num n \<Rightarrow> int vpc_prefix \<le> n \<and> n \<le> 32 | _ \<Rightarrow> False)"

definition cidr_masks :: "val \<Rightarrow> val list" where
  "cidr_masks p =
     (case property p ''subnetConfiguration'' of
        Arr cs \<Rightarrow> map (\<lambda>c. property c ''cidrMask'') cs
      | _ \<Rightarrow> [])"

text \<open>
  Modelled from the spec: the memory sizes (MiB) Fargate accepts for a CPU size, which are
  not part of this repository. The row for 256 CPU units is the one the spec and the
  comment at the task definition state: 512, 1024 or 2048.
\<close>

definition fargate_memory_options :: "(int \<times> int list) list" where
  "fargate_memory_options = [(256, [512, 1024, 2048])]"

definition compatible_cpu_memory :: "val \<Rightarrow> val \<Rightarrow> bool" where
  "compatible_cpu_memory cpu memory =
     (case (cpu, memory) of
        (Num c, Num m) \<Rightarrow>
          (case map_of fargate_memory_options c of Some ms \<Rightarrow> m \<in> set ms | None \<Rightarrow> False)
      | _ \<Rightarrow> False)"

definition within_limit :: "val \<Rightarrow> val \<Rightarrow> bool" where
  "within_limit memory limit =
     (case (memory, limit) of (Num m, Num l) \<Rightarrow> m \<le> l | _ \<Rightarrow> False)"

text \<open>The parameter object of each \<open>addContainer\<close> call.\<close>

definition container_props :: "stmt list \<Rightarrow> val list" where
  "container_props ss =
     concat (map (\<lambda>call. case snd call of [i, p] \<Rightarrow> [p] | _ \<Rightarrow> [])
       (method_calls ''addContainer'' ss))"


text \<open>
  Two frameworks for a run: one whose calls all succeed, and one whose VPC constructor
  throws.
\<close>

definition no_failure :: "stmt list \<Rightarrow> stmt \<Rightarrow> bool" where
  "no_failure done s = False"

definition vpc_failure :: "stmt list \<Rightarrow> stmt \<Rightarrow> bool" where
  "vpc_failure done s = (callee s = ''new ec2.Vpc'')"




section \<open>Auxiliary facts\<close>

subsection \<open>Decimal numerals\<close>








subsection \<open>The executed statements\<close>

lemma trace_append:
  "trace penv fw =
     [Bind ''app'' (New ''cdk.App'' []), Bind ''env'' (Obj (env penv))]
     @ NetworkStack fw (Ref ''app'') ''LabInfraNetworkStack'' (networkStack_props penv)
     @ FargateServiceStack fw (Ref ''app'') ''LabInfraFargateServiceStack''
         (fargateServiceStack_props penv)
     @ PipelineStack fw (Ref ''app'') ''LabInfraPipelineStack'' (pipelineStack_props penv)
     @ epilogue"
  by (simp add: trace_def lab_infra_def epilogue_def)


lemma map_filter_append: "List.map_filter f (xs @ ys) = List.map_filter f xs @ List.map_filter f ys"
  by (simp add: map_filter_def)


lemma map_filter_map_None:
  "(\<And>y. f (g y) = None) \<Longrightarrow> List.map_filter f (map g ys) = []"
  by (induction ys) (simp_all add: map_filter_def)

subsection \<open>Outputs\<close>



























subsection \<open>The statements of the two loops\<close>

lemma subnet_output_simps:
  "PublicSubnet_output (n, sn) =
     Do (New ''cdk.CfnOutput''
       [Ref ''this'', Str (''PublicSubnet'' @ decimal (n + 1) @ ''Id''),
        Obj [(''value'', Str (subnetId sn)),
             (''description'', Str (PublicSubnet_description n sn)),
             (''exportName'', Str (''LabInfra-PublicSubnet'' @ decimal (n + 1) @ ''Id''))]])"
  "PrivateSubnet_output (n, sn) =
     Do (New ''cdk.CfnOutput''
       [Ref ''this'', Str (''PrivateSubnet'' @ decimal (n + 1) @ ''Id''),
        Obj [(''value'', Str (subnetId sn)),
             (''description'', Str (PrivateSubnet_description n sn)),
             (''exportName'', Str (''LabInfra-PrivateSubnet'' @ decimal (n + 1) @ ''Id''))]])"
  by (simp_all add: PublicSubnet_output_def PrivateSubnet_output_def)

lemma NetworkStack_split:
  "NetworkStack fw scope ident props =
     take 4 (NetworkStack fw scope ident props)
     @ map PublicSubnet_output (enumerate 0 (publicSubnets fw))
     @ map PrivateSubnet_output (enumerate 0 (isolatedSubnets fw))"
  by (simp add: NetworkStack_def)

lemma map_filter_NetworkStack:
  assumes "\<And>y. g (PublicSubnet_output y) = None" and "\<And>y. g (PrivateSubnet_output y) = None"
  shows "List.map_filter g (NetworkStack fw scope ident props) =
    List.map_filter g (take 4 (NetworkStack fw scope ident props))"
  by (subst NetworkStack_split)
    (simp only: map_filter_append map_filter_map_None [of g, OF assms(1)]
      map_filter_map_None [of g, OF assms(2)] append_Nil2)

lemma map_filter_trace:
  assumes "\<And>y. g (PublicSubnet_output y) = None" and "\<And>y. g (PrivateSubnet_output y) = None"
  shows "List.map_filter g (trace penv fw) =
    List.map_filter g [Bind ''app'' (New ''cdk.App'' []), Bind ''env'' (Obj (env penv))]
    @ List.map_filter g
        (take 4 (NetworkStack fw (Ref ''app'') ''LabInfraNetworkStack'' (networkStack_props penv)))
    @ List.map_filter g
        (FargateServiceStack fw (Ref ''app'') ''LabInfraFargateServiceStack''
           (fargateServiceStack_props penv))
    @ List.map_filter g
        (PipelineStack fw (Ref ''app'') ''LabInfraPipelineStack'' (pipelineStack_props penv))
    @ List.map_filter g epilogue"
  by (simp only: trace_append map_filter_append map_filter_NetworkStack [of g, OF assms])

lemma method_call_subnet_output:
  "method_call m (PublicSubnet_output y) = None" "method_call m (PrivateSubnet_output y) = None"
  by (cases y; simp add: subnet_output_simps method_call_def)+


lemma super_call_subnet_output:
  "super_call (PublicSubnet_output y) = None" "super_call (PrivateSubnet_output y) = None"
  by (cases y; simp add: subnet_output_simps)+


lemma props_in_subnet_output:
  "c \<noteq> ''cdk.CfnOutput'' \<Longrightarrow> props_in c i (PublicSubnet_output y) = None"
  "c \<noteq> ''cdk.CfnOutput'' \<Longrightarrow> props_in c i (PrivateSubnet_output y) = None"
  by (cases y; simp add: subnet_output_simps props_in_def construct_of_def)+



lemmas stack_defs =
  NetworkStack_def FargateServiceStack_def PipelineStack_def epilogue_def
  DeployNetworkStack_def DeployFargateServiceStack_def

subsection \<open>Method calls\<close>






subsection \<open>References between stacks\<close>













subsection \<open>Stacks and their resources\<close>


lemma super_calls_trace:
  "super_calls (trace penv fw) =
     [(''cdk.Stack'', [Ref ''app'', Str ''LabInfraNetworkStack'', networkStack_props penv]),
      (''cdk.Stack'', [Ref ''app'', Str ''LabInfraFargateServiceStack'',
                       Obj (fargateServiceStack_props penv)]),
      (''cdk.Stack'', [Ref ''app'', Str ''LabInfraPipelineStack'', pipelineStack_props penv])]"
  unfolding super_calls_def
  by (subst map_filter_trace, (rule super_call_subnet_output)+)
    (simp add: stack_defs map_filter_def)






subsection \<open>The environment of the stacks\<close>

lemma env_trace:
  "map (stack_property ''env'') (super_calls (trace penv fw)) =
     [(''cdk.Stack'', Obj (env penv)), (''cdk.Stack'', Obj (env penv)),
      (''cdk.Stack'', Obj (env penv))]"
  unfolding super_calls_trace
  by (simp add: stack_property_def property_def field_def networkStack_props_def
      fargateServiceStack_props_def pipelineStack_props_def)

lemma env_stacks:
  "map (stack_property ''env'') (stacks (lab_infra penv fw)) =
     [(''NetworkStack'', Obj (env penv)), (''FargateServiceStack'', Obj (env penv)),
      (''PipelineStack'', Obj (env penv))]"
  by (simp add: stacks_def lab_infra_def stack_property_def property_def field_def
      networkStack_props_def fargateServiceStack_props_def pipelineStack_props_def)


lemma region_default:
  "penv ''CDK_DEFAULT_REGION'' = None \<or> penv ''CDK_DEFAULT_REGION'' = Some '''' \<Longrightarrow>
     field (env penv) ''region'' = Str ''ap-northeast-1''"
  by (auto simp: env_def field_def logical_or_def)

lemma region_given:
  "penv ''CDK_DEFAULT_REGION'' = Some r \<Longrightarrow> r \<noteq> '''' \<Longrightarrow> field (env penv) ''region'' = Str r"
  by (simp add: env_def field_def logical_or_def)

lemma account_passed:
  "field (env penv) ''account'' = env_var (penv ''CDK_DEFAULT_ACCOUNT'')"
  by (simp add: env_def field_def)

subsection \<open>Parameter objects\<close>

lemma props_of_trace:
  assumes "c \<noteq> ''cdk.CfnOutput''"
  shows "props_of c i (trace penv fw) =
    props_of c i (take 4 (NetworkStack fw (Ref ''app'') ''LabInfraNetworkStack''
      (networkStack_props penv)))
    @ props_of c i (FargateServiceStack fw (Ref ''app'') ''LabInfraFargateServiceStack''
        (fargateServiceStack_props penv))
    @ props_of c i (PipelineStack fw (Ref ''app'') ''LabInfraPipelineStack''
        (pipelineStack_props penv))"
proof -
  have a: "List.map_filter (props_in c i)
      [Bind ''app'' (New ''cdk.App'' []), Bind ''env'' (Obj (env penv))] = []"
    and b: "List.map_filter (props_in c i) epilogue = []"
    by (simp_all add: epilogue_def map_filter_def props_in_def construct_of_def)
  show ?thesis
    unfolding props_of_def
    by (subst map_filter_trace, (rule props_in_subnet_output [OF assms])+)
      (simp only: a b append_Nil append_Nil2)
qed

lemma Vpc_props:
  "props_of ''ec2.Vpc'' ''LabInfraVpc'' (trace penv fw) =
     [Obj [(''cidr'', Str ''10.0.0.0/16''),
           (''maxAzs'', Num 2),
           (''subnetConfiguration'', Arr
              [Obj [(''cidrMask'', Num 24),
                    (''name'', Str ''PublicSubnet''),
                    (''subnetType'', Enum ''ec2.SubnetType.PUBLIC'')],
               Obj [(''cidrMask'', Num 24),
                    (''name'', Str ''PrivateSubnet''),
                    (''subnetType'', Enum ''ec2.SubnetType.PRIVATE_ISOLATED'')]]),
           (''natGateways'', Num 0)]]"
  by (subst props_of_trace)
    (simp_all add: stack_defs props_of_def map_filter_def props_in_def construct_of_def)



lemma FargateTaskDefinition_props:
  "props_of ''ecs.FargateTaskDefinition'' ''LabInfraTaskDefinition'' (trace penv fw) =
     [Obj [(''family'', Str ''lab-infra-task''),
           (''cpu'', Num 256),
           (''memoryLimitMiB'', Num 512),
           (''executionRole'', Ref ''taskExecutionRole''),
           (''taskRole'', Ref ''taskRole'')]]"
  by (subst props_of_trace)
    (simp_all add: stack_defs props_of_def map_filter_def props_in_def construct_of_def)


subsection \<open>The calls made\<close>








subsection \<open>Dependence on the process environment\<close>





subsection \<open>Runs\<close>

lemma run_completes:
  "(\<And>i. i < length ss \<Longrightarrow> \<not> throws (done @ take i ss) (ss ! i)) \<Longrightarrow>
     run throws done ss = Inr (done @ ss)"
proof (induction ss arbitrary: "done")
  case Nil
  show ?case by simp
next
  case (Cons s ss)
  from Cons.prems [of 0] have s: "\<not> throws done s" by simp
  have "run throws (done @ [s]) ss = Inr ((done @ [s]) @ ss)"
  proof (rule Cons.IH)
    fix i assume "i < length ss"
    with Cons.prems [of "Suc i"] show "\<not> throws ((done @ [s]) @ take i ss) (ss ! i)"
      by simp
  qed
  with s show ?case by simp
qed

lemma run_error:
  "run throws done ss = Inl e \<Longrightarrow>
     \<exists>i < length ss. throws (done @ take i ss) (ss ! i) \<and> e = FrameworkError (ss ! i)"
proof (induction ss arbitrary: "done")
  case Nil
  then show ?case by simp
next
  case (Cons s ss)
  show ?case
  proof (cases "throws done s")
    case True
    with Cons.prems have "e = FrameworkError s" by simp
    with True show ?thesis by (intro exI [of _ 0]) simp
  next
    case False
    with Cons.prems have "run throws (done @ [s]) ss = Inl e" by simp
    from Cons.IH [OF this] obtain i where i: "i < length ss"
      and t: "throws ((done @ [s]) @ take i ss) (ss ! i)" and e: "e = FrameworkError (ss ! i)"
      by blast
    from i t e show ?thesis by (intro exI [of _ "Suc i"]) simp
  qed
qed

subsection \<open>Declared values\<close>

lemma parse_cidr_vpc: "parse_cidr ''10.0.0.0/16'' = Some ([10, 0, 0, 0], 16)"
  by (simp add: parse_cidr_def parse_decimal_def digit_value_def)

lemma container_props_trace:
  "map (\<lambda>p. property p ''memoryLimitMiB'') (container_props (trace penv fw)) = [Num 512]"
  unfolding container_props_def method_calls_def
  by (subst map_filter_trace, (rule method_call_subnet_output)+)
    (simp add: stack_defs map_filter_def method_call_def property_def field_def)

subsection \<open>Bindings\<close>





section \<open>Dependencies between the stacks\<close>



section \<open>The three stacks\<close>



section \<open>Named outputs\<close>



section \<open>Control flow\<close>




section \<open>Errors\<close>

text \<open>
  C5. The code raises and handles no error of its own. If no call into the framework
  throws, the run executes every statement of the entry script, the construction of the
  three stacks included, and ends without an error. If the run ends with an error, the
  error is the one the framework threw at a statement of the script, and nothing after
  that statement was executed: the code neither catches it nor recovers from it.
\<close>

theorem C5_no_own_errors:
  "((\<forall>i < length (trace penv fw). \<not> throws (take i (trace penv fw)) (trace penv fw ! i))
      \<longrightarrow> run throws [] (trace penv fw) = Inr (trace penv fw)
          \<and> map fst (super_calls (trace penv fw)) =
              [''cdk.Stack'', ''cdk.Stack'', ''cdk.Stack''])
   \<and> (run throws [] (trace penv fw) = Inl e
      \<longrightarrow> (\<exists>i < length (trace penv fw).
            throws (take i (trace penv fw)) (trace penv fw ! i)
            \<and> e = FrameworkError (trace penv fw ! i)))"
  using run_completes [of "trace penv fw" throws "[]"] run_error [of throws "[]" "trace penv fw" e]
  by (simp add: super_calls_trace)

theorem C5_no_own_errors_witness:
  "run no_failure [] (trace unset_env example_framework) = Inr (trace unset_env example_framework)
   \<and> run vpc_failure [] (trace unset_env example_framework) =
       Inl (FrameworkError (trace unset_env example_framework ! 3))
   \<and> callee (trace unset_env example_framework ! 3) = ''new ec2.Vpc''"
proof -
  have t: "trace unset_env example_framework ! 3 =
      hd (tl (NetworkStack example_framework (Ref ''app'') ''LabInfraNetworkStack''
        (networkStack_props unset_env)))"
    by (simp add: trace_append NetworkStack_def)
  have v: "run vpc_failure [] (trace unset_env example_framework) =
      Inl (FrameworkError (trace unset_env example_framework ! 3))"
    unfolding t by (simp add: trace_append NetworkStack_def vpc_failure_def)
  have c: "callee (trace unset_env example_framework ! 3) = ''new ec2.Vpc''"
    unfolding t by (simp add: NetworkStack_def)
  from C5_no_own_errors [of unset_env example_framework no_failure] v c show ?thesis
    by (simp add: no_failure_def)
qed

section \<open>The provider's constraints\<close>

text \<open>
  C6. The declared values satisfy the provider's constraints the spec cites. The VPC's
  \<open>cidr\<close>, \<open>10.0.0.0/16\<close>, is a well-formed CIDR block with prefix length 16, and both subnet
  groups have \<open>cidrMask\<close> 24, a prefix length not shorter than 16. The task definition has
  \<open>cpu\<close> 256 with \<open>memoryLimitMiB\<close> 512, one of the memory sizes allowed for 256 CPU units,
  and the container's \<open>memoryLimitMiB\<close>, 512, does not exceed the task's.
\<close>

theorem C6_provider_constraints:
  "map vpc_cidr (props_of ''ec2.Vpc'' ''LabInfraVpc'' (trace penv fw)) =
     [Some ([10, 0, 0, 0], 16)]
   \<and> map cidr_masks (props_of ''ec2.Vpc'' ''LabInfraVpc'' (trace penv fw)) =
       [[Num 24, Num 24]]
   \<and> map (\<lambda>p. map (valid_cidr_mask 16) (cidr_masks p))
         (props_of ''ec2.Vpc'' ''LabInfraVpc'' (trace penv fw)) = [[True, True]]
   \<and> map (\<lambda>p. (property p ''cpu'', property p ''memoryLimitMiB'',
               compatible_cpu_memory (property p ''cpu'') (property p ''memoryLimitMiB'')))
         (props_of ''ecs.FargateTaskDefinition'' ''LabInfraTaskDefinition'' (trace penv fw)) =
       [(Num 256, Num 512, True)]
   \<and> map (\<lambda>p. (property p ''memoryLimitMiB'',
               within_limit (property p ''memoryLimitMiB'') (Num 512)))
         (container_props (trace penv fw)) = [(Num 512, True)]"
proof -
  have "map (\<lambda>p. (property p ''memoryLimitMiB'',
               within_limit (property p ''memoryLimitMiB'') (Num 512)))
         (container_props (trace penv fw)) =
        map (\<lambda>m. (m, within_limit m (Num 512)))
          (map (\<lambda>p. property p ''memoryLimitMiB'') (container_props (trace penv fw)))"
    by (simp add: comp_def)
  then have "map (\<lambda>p. (property p ''memoryLimitMiB'',
               within_limit (property p ''memoryLimitMiB'') (Num 512)))
         (container_props (trace penv fw)) = [(Num 512, True)]"
    unfolding container_props_trace by (simp add: within_limit_def)
  then show ?thesis
    unfolding Vpc_props FargateTaskDefinition_props
    by (simp add: vpc_cidr_def cidr_masks_def property_def field_def parse_cidr_vpc
        valid_cidr_mask_def compatible_cpu_memory_def fargate_memory_options_def)
qed

theorem C6_provider_constraints_witness:
  "map vpc_cidr (props_of ''ec2.Vpc'' ''LabInfraVpc'' (trace unset_env example_framework)) =
     [Some ([10, 0, 0, 0], 16)]
   \<and> map cidr_masks (props_of ''ec2.Vpc'' ''LabInfraVpc'' (trace unset_env example_framework)) =
       [[Num 24, Num 24]]
   \<and> parse_cidr ''10.0.0.256/16'' = None
   \<and> \<not> valid_cidr_mask 16 (Num 8)
   \<and> \<not> compatible_cpu_memory (Num 256) (Num 4096)"
proof -
  have "parse_cidr ''10.0.0.256/16'' = None"
    by (simp add: parse_cidr_def parse_decimal_def digit_value_def)
  moreover have "\<not> valid_cidr_mask 16 (Num 8)"
    by (simp add: valid_cidr_mask_def)
  moreover have "\<not> compatible_cpu_memory (Num 256) (Num 4096)"
    by (simp add: compatible_cpu_memory_def fargate_memory_options_def)
  ultimately show ?thesis
    using C6_provider_constraints [of unset_env example_framework] by blast
qed

section \<open>Determinism\<close>




section \<open>The environment of the stacks\<close>

text \<open>
  C8. If \<open>CDK_DEFAULT_REGION\<close> is unset or empty, the region of the \<open>env\<close> object is
  \<open>ap-northeast-1\<close>; if \<open>CDK_DEFAULT_ACCOUNT\<close> is unset, its account is \<open>undefined\<close>; and the
  three stacks are constructed with this one \<open>env\<close> object, which their constructors pass
  on to the constructor of \<open>cdk.Stack\<close>.
\<close>

theorem C8_env_defaults:
  "(penv ''CDK_DEFAULT_REGION'' = None \<or> penv ''CDK_DEFAULT_REGION'' = Some ''''
      \<longrightarrow> field (env penv) ''region'' = Str ''ap-northeast-1'')
   \<and> (penv ''CDK_DEFAULT_ACCOUNT'' = None \<longrightarrow> field (env penv) ''account'' = Undefined)
   \<and> map (stack_property ''env'') (stacks (lab_infra penv fw)) =
       [(''NetworkStack'', Obj (env penv)), (''FargateServiceStack'', Obj (env penv)),
        (''PipelineStack'', Obj (env penv))]
   \<and> map (stack_property ''env'') (super_calls (trace penv fw)) =
       [(''cdk.Stack'', Obj (env penv)), (''cdk.Stack'', Obj (env penv)),
        (''cdk.Stack'', Obj (env penv))]"
  using region_default [of penv] account_passed [of penv] env_stacks [of penv fw]
    env_trace [of penv fw]
  by (simp add: env_var_def)

theorem C8_env_defaults_witness:
  "unset_env ''CDK_DEFAULT_REGION'' = None
   \<and> field (env unset_env) ''region'' = Str ''ap-northeast-1''
   \<and> unset_env ''CDK_DEFAULT_ACCOUNT'' = None
   \<and> field (env unset_env) ''account'' = Undefined
   \<and> empty_region_env ''CDK_DEFAULT_REGION'' = Some ''''
   \<and> field (env empty_region_env) ''region'' = Str ''ap-northeast-1''
   \<and> map (stack_property ''env'') (stacks (lab_infra unset_env example_framework)) =
       [(''NetworkStack'', Obj [(''account'', Undefined), (''region'', Str ''ap-northeast-1'')]),
        (''FargateServiceStack'',
           Obj [(''account'', Undefined), (''region'', Str ''ap-northeast-1'')]),
        (''PipelineStack'', Obj [(''account'', Undefined), (''region'', Str ''ap-northeast-1'')])]"
proof -
  have u: "unset_env ''CDK_DEFAULT_REGION'' = None" "unset_env ''CDK_DEFAULT_ACCOUNT'' = None"
    by (simp_all add: unset_env_def)
  have e: "empty_region_env ''CDK_DEFAULT_REGION'' = Some ''''"
    by (simp add: empty_region_env_def)
  have v: "env unset_env = [(''account'', Undefined), (''region'', Str ''ap-northeast-1'')]"
    by (simp add: env_def u env_var_def logical_or_def)
  from C8_env_defaults [of unset_env example_framework] C8_env_defaults [of empty_region_env] u e
  show ?thesis by (simp add: v)
qed

section \<open>The security group of the Fargate service\<close>



section \<open>Subnets and the placement of the service\<close>



end
